theory Spec2Isabelle
  imports
    Complex_Main
    "HOL-Library.Char_ord"
    "HOL-Library.List_Lexorder"
    "HOL-Library.Product_Lexorder"
    "HOL-Library.Multiset"
begin

section \<open>Text\<close>

text \<open>
  A Python \<open>str\<close> is modelled as a \<^typ>\<open>string\<close> whose characters are the code points
  below 256. \<open>len\<close> is \<^const>\<open>length\<close>, comparison of strings is the lexicographic order
  on code points (\<open>List_Lexorder\<close> over \<open>Char_ord\<close>), as in Python.

  \<open>str.isspace\<close> holds, among the code points below 256, for TAB, LF, VT, FF, CR,
  the separators FS, GS, RS, US, the space, NEL (0x85) and the no-break space (0xA0).
\<close>

definition isspace :: "char \<Rightarrow> bool" where
  "isspace c = ((of_char c :: nat) \<in> {9, 10, 11, 12, 13, 28, 29, 30, 31, 32, 133, 160})"

definition lstrip :: "string \<Rightarrow> string" where
  "lstrip s = dropWhile isspace s"

definition rstrip :: "string \<Rightarrow> string" where
  "rstrip s = rev (dropWhile isspace (rev s))"

text \<open>\<open>s.strip()\<close>: leading and trailing whitespace removed.\<close>

definition strip :: "string \<Rightarrow> string" where
  "strip s = rstrip (lstrip s)"

text \<open>\<open>s.startswith(p)\<close>.\<close>

definition startswith :: "string \<Rightarrow> string \<Rightarrow> bool" where
  "startswith s p = (take (length p) s = p)"


text \<open>\<open>sep.join(xs)\<close>.\<close>

fun join :: "string \<Rightarrow> string list \<Rightarrow> string" where
  "join sep [] = []"
| "join sep [x] = x"
| "join sep (x # y # ys) = x @ sep @ join sep (y # ys)"

text \<open>Decimal rendering of integers, as \<open>str(n)\<close> and \<open>f"{n}"\<close> give it.\<close>

definition digit_char :: "nat \<Rightarrow> char" where
  "digit_char d = char_of (48 + d)"

function str_nat :: "nat \<Rightarrow> string" where
  "str_nat n = (if n < 10 then [digit_char n] else str_nat (n div 10) @ [digit_char (n mod 10)])"
  by pat_completeness auto
termination
  by (relation "measure id") auto

declare str_nat.simps [simp del]

definition str_int :: "int \<Rightarrow> string" where
  "str_int i = (if i < 0 then CHR ''-'' # str_nat (nat (- i)) else str_nat (nat i))"

text \<open>The format specifications \<open>{!s:<20}\<close> (pad on the right to width 20) and
  \<open>{i:2d}\<close> (pad on the left to width 2). Neither ever shortens the text.\<close>

definition ljust :: "nat \<Rightarrow> string \<Rightarrow> string" where
  "ljust w s = s @ replicate (w - length s) CHR '' ''"


section \<open>Exceptions\<close>

text \<open>
  The exceptions the scripts raise or catch. \<open>RemoteError msg\<close> stands for any exception
  raised by the BigQuery client, \<open>msg\<close> being its \<open>str(e)\<close>; \<open>SystemExit n\<close> is
  \<open>sys.exit(n)\<close>.
\<close>

datatype pyerror =
    OSError
  | UnicodeDecodeError
  | ValueError
  | TypeError
  | EOFError
  | RemoteError string
  | SystemExit int

section \<open>The directory tree\<close>

text \<open>
  A path is the list of its components below the working directory; the empty path is the
  working directory itself, which always exists. \<open>p / name\<close> appends one component: the
  catalog, schema and table names are taken to be plain file names.

  A node is a directory, a text file with its content, or a file that exists but cannot
  be read as UTF-8 text. Text is stored as written: the newline translation of Python's
  text layer is not modelled, file contents are taken free of carriage returns.
\<close>

type_synonym path = "string list"

datatype node = Dir | File string | Unreadable

type_synonym filesystem = "path \<Rightarrow> node option"

definition path_exists :: "filesystem \<Rightarrow> path \<Rightarrow> bool" where
  "path_exists fs p = (p = [] \<or> fs p \<noteq> None)"

definition is_dir :: "filesystem \<Rightarrow> path \<Rightarrow> bool" where
  "is_dir fs p = (p = [] \<or> fs p = Some Dir)"

text \<open>\<open>Path.mkdir(exist_ok=True)\<close>: an existing directory is left alone, anything else at
  the path is an error, and so is a missing parent.\<close>

definition mkdir :: "filesystem \<Rightarrow> path \<Rightarrow> pyerror + filesystem" where
  "mkdir fs p =
     (if is_dir fs p then Inr fs
      else if path_exists fs p then Inl OSError
      else if \<not> is_dir fs (butlast p) then Inl OSError
      else Inr (fs(p \<mapsto> Dir)))"

text \<open>\<open>Path.mkdir(parents=True, exist_ok=True)\<close>: missing ancestors are created first; a
  non-directory on the way is an error, raised before anything is created.\<close>

function mkdir_parents :: "filesystem \<Rightarrow> path \<Rightarrow> pyerror + filesystem" where
  "mkdir_parents fs p =
     (if is_dir fs p then Inr fs
      else if path_exists fs p then Inl OSError
      else (case mkdir_parents fs (butlast p) of
              Inl e \<Rightarrow> Inl e
            | Inr fs' \<Rightarrow> Inr (fs'(p \<mapsto> Dir))))"
  by pat_completeness auto
termination
  by (relation "measure (\<lambda>(fs, p). length p)") (auto simp: is_dir_def)

declare mkdir_parents.simps [simp del]

text \<open>\<open>open(p, "w", encoding="utf-8")\<close> followed by \<open>f.write(s)\<close>: the file is created or
  replaced; the parent must be a directory and the path itself must not be one.\<close>

definition write_text :: "filesystem \<Rightarrow> path \<Rightarrow> string \<Rightarrow> pyerror + filesystem" where
  "write_text fs p s =
     (if p = [] \<or> fs p = Some Dir \<or> \<not> is_dir fs (butlast p) then Inl OSError
      else Inr (fs(p \<mapsto> File s)))"

text \<open>\<open>open(p, encoding="utf-8")\<close> followed by \<open>f.read()\<close>.\<close>

definition read_text :: "filesystem \<Rightarrow> path \<Rightarrow> pyerror + string" where
  "read_text fs p =
     (case fs p of
        None \<Rightarrow> Inl OSError
      | Some Dir \<Rightarrow> Inl OSError
      | Some Unreadable \<Rightarrow> Inl UnicodeDecodeError
      | Some (File s) \<Rightarrow> Inr s)"

section \<open>create\_table\_structure.py\<close>

subsection \<open>should\_update\_preview\<close>

definition error_sentinel :: string where
  "error_sentinel = ''-- Error retrieving preview''"

text \<open>The three checks in the order of the source; every \<open>except Exception\<close> answers
  \<open>True\<close>.\<close>

definition should_update_preview :: "filesystem \<Rightarrow> path \<Rightarrow> path \<Rightarrow> string \<Rightarrow> bool" where
  "should_update_preview fs ddl_file_path preview_file_path current_ddl =
     (if \<not> path_exists fs preview_file_path then True
      else case read_text fs preview_file_path of
        Inl e \<Rightarrow> True
      | Inr preview_content \<Rightarrow>
          if startswith (strip preview_content) error_sentinel then True
          else if path_exists fs ddl_file_path then
            (case read_text fs ddl_file_path of
               Inl e \<Rightarrow> True
             | Inr existing_ddl \<Rightarrow>
                 if strip existing_ddl \<noteq> strip current_ddl then True else False)
          else False)"

subsection \<open>Rendering a preview\<close>

text \<open>
  A cell of a sampled row is \<open>None\<close> for Python's \<open>None\<close> and \<open>Some s\<close> for any other
  value, \<open>s\<close> being its \<open>str(value)\<close>: the code looks at nothing else.
\<close>

type_synonym cell = "string option"

text \<open>The slice \<open>s[:k]\<close>; a negative \<open>k\<close> counts from the end.\<close>

definition slice_to :: "int \<Rightarrow> string \<Rightarrow> string" where
  "slice_to k s = (if 0 \<le> k then take (nat k) s else take (length s - nat (- k)) s)"

definition truncation_marker :: string where
  "truncation_marker = ''... [TRUNCATED]''"

definition format_preview_value :: "cell \<Rightarrow> string \<Rightarrow> int \<Rightarrow> string" where
  "format_preview_value val field_type max_length =
     (case val of
        None \<Rightarrow> ''NULL''
      | Some str_value \<Rightarrow>
          if field_type \<in> {''GEOGRAPHY'', ''GEOMETRY''} \<or> int (length str_value) > max_length
          then slice_to max_length str_value @ truncation_marker
          else str_value)"

text \<open>The default \<open>max_length\<close> of \<open>_format_preview_value\<close>, the only one in use.\<close>

definition default_max_length :: int where
  "default_max_length = 100"

datatype schema_field = SchemaField (name: string) (field_type: string)

text \<open>
  What the sample-row interface answers for one table: \<open>get_table\<close> gives the table's
  \<open>num_rows\<close> (which may be \<open>None\<close>), \<open>list_rows\<close> the schema and the sampled rows for the
  requested limit. \<open>Inl msg\<close> is an exception whose \<open>str(e)\<close> is \<open>msg\<close>.
\<close>

record rows_response =
  schema :: "schema_field list"
  rows :: "cell list list"

record remote_table =
  get_table :: "string + int option"
  list_rows :: "string + rows_response"

definition str_optional_int :: "int option \<Rightarrow> string" where
  "str_optional_int v = (case v of None \<Rightarrow> ''None'' | Some n \<Rightarrow> str_int n)"

text \<open>\<open>("{!s:<20} " * n).format(*values)\<close>, for \<open>n\<close> values.\<close>

definition format_line :: "string list \<Rightarrow> string" where
  "format_line vals = concat (map (\<lambda>v. ljust 20 v @ '' '') vals)"

text \<open>\<open>zip(row, field_types, strict=True)\<close>: a \<open>ValueError\<close> when the lengths differ.\<close>

definition zip_strict :: "'a list \<Rightarrow> 'b list \<Rightarrow> string + ('a \<times> 'b) list" where
  "zip_strict xs ys =
     (if length ys < length xs then Inl ''zip() argument 2 is shorter than argument 1''
      else if length xs < length ys then Inl ''zip() argument 2 is longer than argument 1''
      else Inr (zip xs ys))"

text \<open>The loop over the rows; the first row that raises ends it.\<close>

fun format_rows :: "string list \<Rightarrow> cell list list \<Rightarrow> string + string list" where
  "format_rows field_types [] = Inr []"
| "format_rows field_types (row # rest) =
     (case zip_strict row field_types of
        Inl msg \<Rightarrow> Inl msg
      | Inr pairs \<Rightarrow>
          (let row_values = map (\<lambda>(v, t). format_preview_value v t default_max_length) pairs in
           case format_rows field_types rest of
             Inl msg \<Rightarrow> Inl msg
           | Inr lines \<Rightarrow> Inr ((''-- '' @ format_line row_values) # lines)))"

definition preview_header :: "string \<Rightarrow> int option \<Rightarrow> rows_response \<Rightarrow> string list" where
  "preview_header table_id num_rows resp =
     [''-- Preview of table: '' @ table_id,
      ''-- Total rows in table: '' @ str_optional_int num_rows,
      ''-- Showing first '' @ str_nat (length (rows resp)) @ '' rows'',
      [],
      ''-- '' @ format_line (map name (schema resp)),
      ''-- '' @ replicate (20 * length (schema resp)) CHR ''-'']"

definition no_data_text :: string where
  "no_data_text = ''-- No data available in this table'' @ [CHR 0x0A]"

definition error_text :: "string \<Rightarrow> string \<Rightarrow> string" where
  "error_text table_id msg =
     ''-- Error retrieving preview for '' @ table_id @ '': '' @ msg @ [CHR 0x0A]"

text \<open>The lines of a preview of a non-empty sample, before they are joined.\<close>

definition preview_lines :: "string \<Rightarrow> int option \<Rightarrow> rows_response \<Rightarrow> string + string list" where
  "preview_lines table_id num_rows resp =
     (case format_rows (map field_type (schema resp)) (rows resp) of
        Inl msg \<Rightarrow> Inl msg
      | Inr body \<Rightarrow> Inr (preview_header table_id num_rows resp @ body))"

definition get_table_preview :: "remote_table \<Rightarrow> string \<Rightarrow> string" where
  "get_table_preview remote table_id =
     (case get_table remote of
        Inl msg \<Rightarrow> error_text table_id msg
      | Inr num_rows \<Rightarrow>
          (case list_rows remote of
             Inl msg \<Rightarrow> error_text table_id msg
           | Inr resp \<Rightarrow>
               if rows resp = [] then no_data_text
               else (case preview_lines table_id num_rows resp of
                       Inl msg \<Rightarrow> error_text table_id msg
                     | Inr lines \<Rightarrow> join [CHR 0x0A] lines @ [CHR 0x0A])))"

subsection \<open>The preview fetch pool\<close>

datatype fetch_status = Created path | ErrorFetching string pyerror

definition fetch_and_save_preview ::
  "(string \<Rightarrow> remote_table) \<Rightarrow> filesystem \<Rightarrow> string \<times> path \<Rightarrow> filesystem \<times> fetch_status" where
  "fetch_and_save_preview remote fs task =
     (case task of (table_id, preview_file_path) \<Rightarrow>
        (case write_text fs preview_file_path (get_table_preview (remote table_id) table_id) of
           Inl e \<Rightarrow> (fs, ErrorFetching table_id e)
         | Inr fs' \<Rightarrow> (fs', Created preview_file_path)))"

text \<open>
  The pool runs the tasks on four threads. Each task is one call of
  \<open>fetch_and_save_preview\<close>; the model runs them one after the other, in the order of
  submission.
\<close>

fun run_preview_tasks ::
  "(string \<Rightarrow> remote_table) \<Rightarrow> filesystem \<Rightarrow> (string \<times> path) list \<Rightarrow> filesystem \<times> fetch_status list" where
  "run_preview_tasks remote fs [] = (fs, [])"
| "run_preview_tasks remote fs (task # rest) =
     (case fetch_and_save_preview remote fs task of
        (fs', status) \<Rightarrow>
          (case run_preview_tasks remote fs' rest of
             (fs'', statuses) \<Rightarrow> (fs'', status # statuses)))"

subsection \<open>The catalog and the synchronizer\<close>

text \<open>
  A row of the data frame; a column value is \<open>None\<close> where \<open>pd.isna\<close> holds and \<open>Some s\<close>
  otherwise, \<open>s\<close> being its \<open>str\<close>.
\<close>

record catalog_row =
  table_catalog :: "string option"
  table_schema :: "string option"
  table_name :: "string option"
  wildcard_table_name :: "string option"
  ddl :: "string option"

text \<open>
  The registry answers the \<open>INFORMATION_SCHEMA.TABLES\<close> query (the two filters are part
  of the query) with rows of catalog, schema, table and definition text, or the query
  raises. \<open>fetch_tables_from_bigquery\<close> adds the column \<open>wildcard_table_name\<close>, a copy of
  \<open>table_name\<close>, and re-raises.
\<close>

type_synonym registry_row = "string option \<times> string option \<times> string option \<times> string option"

definition fetch_tables_from_bigquery :: "string + registry_row list \<Rightarrow> pyerror + catalog_row list" where
  "fetch_tables_from_bigquery response =
     (case response of
        Inl msg \<Rightarrow> Inl (RemoteError msg)
      | Inr df \<Rightarrow>
          Inr (map (\<lambda>(c, s, t, d).
                 \<lparr>table_catalog = c, table_schema = s, table_name = t,
                  wildcard_table_name = t, ddl = d\<rparr>) df))"

text \<open>The state of the loop over the rows: the directory tree, the counter and the
  queue of preview tasks \<open>(table_id, preview_file_path)\<close>.\<close>

record sync_state =
  disk :: filesystem
  created_tables :: nat
  preview_tasks :: "(string \<times> path) list"

text \<open>The five column values of a row, stripped; \<open>None\<close> when one of them is missing.\<close>

definition row_fields :: "catalog_row \<Rightarrow> (string \<times> string \<times> string \<times> string \<times> string) option" where
  "row_fields row =
     Option.bind (table_catalog row) (\<lambda>c.
     Option.bind (table_schema row) (\<lambda>s.
     Option.bind (table_name row) (\<lambda>t.
     Option.bind (wildcard_table_name row) (\<lambda>w.
     Option.bind (ddl row) (\<lambda>d.
       Some (strip c, strip s, strip t, strip w, strip d))))))"

text \<open>
  The body of the loop. A row with a missing value is skipped; an exception of \<open>mkdir\<close> or
  of the write is caught and the loop goes on with the next row. The definition file is
  written first; \<open>should_update_preview\<close> is then asked about the tree as it is after
  that write.
\<close>

definition process_row :: "path \<Rightarrow> bool \<Rightarrow> sync_state \<Rightarrow> catalog_row \<Rightarrow> sync_state" where
  "process_row base_path enable_preview st row =
     (case row_fields row of
        None \<Rightarrow> st
      | Some (catalog, schema_name, tname, wname, ddl_text) \<Rightarrow>
          (let table_dir = base_path @ [catalog, schema_name, wname] in
           case mkdir_parents (disk st) table_dir of
             Inl e \<Rightarrow> st
           | Inr fs1 \<Rightarrow>
               (let ddl_file_path = table_dir @ [''ddl.sql''] in
                case write_text fs1 ddl_file_path ddl_text of
                  Inl e \<Rightarrow> st\<lparr>disk := fs1\<rparr>
                | Inr fs2 \<Rightarrow>
                    (let preview_file_path = table_dir @ [''preview.sql''];
                         table_id = catalog @ ''.'' @ schema_name @ ''.'' @ tname;
                         tasks =
                           (if enable_preview \<and>
                               should_update_preview fs2 ddl_file_path preview_file_path ddl_text
                            then preview_tasks st @ [(table_id, preview_file_path)]
                            else preview_tasks st)
                     in st\<lparr>disk := fs2, created_tables := created_tables st + 1,
                           preview_tasks := tasks\<rparr>))))"

definition process_rows :: "path \<Rightarrow> bool \<Rightarrow> sync_state \<Rightarrow> catalog_row list \<Rightarrow> sync_state" where
  "process_rows base_path enable_preview st df = foldl (process_row base_path enable_preview) st df"

text \<open>
  The world outside the process: the variable \<open>PROJECT_ID\<close> and whether the client can
  be built (\<open>Some msg\<close>: its constructor raises), then the registry's answer and the
  sample-row interface.
\<close>

record gcp =
  env_project_id :: "string option"
  client_failure :: "string option"

record world = gcp +
  registry :: "string + registry_row list"
  sample_rows :: "string \<Rightarrow> remote_table"

text \<open>\<open>get_billing_project\<close> of \<open>config.py\<close>: a \<open>ValueError\<close> when the variable is unset or
  empty.\<close>

definition get_billing_project :: "'a gcp_scheme \<Rightarrow> pyerror + string" where
  "get_billing_project w =
     (case env_project_id w of
        None \<Rightarrow> Inl ValueError
      | Some project_id \<Rightarrow> if project_id = [] then Inl ValueError else Inr project_id)"

text \<open>What a call of \<open>create_table_structure\<close> that returns leaves behind.\<close>

record run_report =
  final_disk :: filesystem
  created :: nat
  dispatched :: "(string \<times> path) list"
  statuses :: "fetch_status list"

text \<open>The second half of \<open>create_table_structure\<close>, once the base directory is there: the
  loop over the rows, then the pool on the tasks the loop queued.\<close>

definition synchronize ::
  "(string \<Rightarrow> remote_table) \<Rightarrow> filesystem \<Rightarrow> path \<Rightarrow> bool \<Rightarrow> catalog_row list \<Rightarrow> run_report" where
  "synchronize remote fs0 base_path enable_preview df =
     (let st = process_rows base_path enable_preview
                 \<lparr>disk = fs0, created_tables = 0, preview_tasks = []\<rparr> df
      in case run_preview_tasks remote (disk st) (preview_tasks st) of
           (fs', sts) \<Rightarrow>
             \<lparr>final_disk = fs', created = created_tables st,
              dispatched = preview_tasks st, statuses = sts\<rparr>)"

text \<open>
  \<open>create_table_structure\<close>. \<open>Inl e\<close>: the exception \<open>e\<close> leaves the function (the client
  cannot be built, or the base directory cannot be made). A failed fetch of the catalog
  is caught: the function prints and returns. The check of the required columns cannot
  fail on a data frame built by \<open>fetch_tables_from_bigquery\<close>.
\<close>

definition create_table_structure ::
  "world \<Rightarrow> filesystem \<Rightarrow> path \<Rightarrow> bool \<Rightarrow> pyerror + run_report" where
  "create_table_structure w fs output_dir enable_preview =
     (case get_billing_project w of
        Inl e \<Rightarrow> Inl e
      | Inr billing_project \<Rightarrow>
          (case client_failure w of
             Some msg \<Rightarrow> Inl (RemoteError msg)
           | None \<Rightarrow>
               (case fetch_tables_from_bigquery (registry w) of
                  Inl e \<Rightarrow> Inr \<lparr>final_disk = fs, created = 0, dispatched = [], statuses = []\<rparr>
                | Inr df \<Rightarrow>
                    if df = [] then Inr \<lparr>final_disk = fs, created = 0, dispatched = [], statuses = []\<rparr>
                    else
                      (case mkdir fs output_dir of
                         Inl e \<Rightarrow> Inl e
                       | Inr fs0 \<Rightarrow>
                           Inr (synchronize (sample_rows w) fs0 output_dir enable_preview df)))))"

text \<open>
  \<open>main\<close> of the script, run as \<open>exit(main())\<close>: the exit status and the tree it leaves.
  \<open>main\<close> returns 0 whenever \<open>create_table_structure\<close> returns; an exception that leaves it
  ends the interpreter with status 1.
\<close>

record build_args =
  output_dir :: path
  skip_preview :: bool


section \<open>add\_usage\_data.py\<close>

subsection \<open>Usage records\<close>














subsection \<open>The leaderboard\<close>








subsection \<open>The per-table usage files\<close>












section \<open>run\_query.py\<close>

text \<open>\<open>str.lower\<close> on the code points below 256: the ASCII capitals and the accented
  capitals 0xC0 to 0xDE (the multiplication sign 0xD7 apart) move up by 32.\<close>

definition lower_char :: "char \<Rightarrow> char" where
  "lower_char c =
     (let n = (of_char c :: nat)
      in if (65 \<le> n \<and> n \<le> 90) \<or> (192 \<le> n \<and> n \<le> 222 \<and> n \<noteq> 215) then char_of (n + 32) else c)"

definition lower :: "string \<Rightarrow> string" where
  "lower s = map lower_char s"

text \<open>\<open>sub in s\<close> for strings.\<close>

fun contains :: "string \<Rightarrow> string \<Rightarrow> bool" where
  "contains sub [] = (sub = [])"
| "contains sub (c # cs) = (startswith (c # cs) sub \<or> contains sub cs)"

text \<open>
  The estimate of the dry run in gigabytes, \<open>float(bytes) / float(1024**3)\<close>. The division
  by a power of two is exact in binary floating point and the conversion of the byte
  count is monotone, so the comparison with 100 of the source agrees with the comparison
  of the exact quotient, which is what the model computes.
\<close>

definition gb_of_bytes :: "int \<Rightarrow> rat" where
  "gb_of_bytes bytes_processed = of_int bytes_processed / of_int (1024 ^ 3)"

text \<open>
  What the world gives the query runner: the configuration and the client as before, the
  outcome of the dry run (\<open>Inl\<close>: it raises; \<open>Inr\<close>: the job's \<open>total_bytes_processed\<close>,
  possibly \<open>None\<close>), the lines typed on standard input (after the last one \<open>input()\<close>
  raises \<open>EOFError\<close>), the outcome of the query and of the conversion of its result to a
  data frame, and whether writing the result file fails (\<open>sys.exit(1)\<close>). A failure to
  write the statistics file is caught with a warning and changes nothing else.
\<close>

record runner_world = gcp +
  dry_run_job :: "string + int option"
  typed_lines :: "string list"
  query_failure :: "string option"
  to_dataframe_failure :: "string option"
  save_results_failure :: bool

record runner_args =
  sql_file :: path
  output_file :: "path option"
  project_id_arg :: "string option"
  force :: bool

text \<open>What the runner attempts on the outside, in order.\<close>

datatype action =
    DryRun
  | Prompt
  | ExecuteQuery
  | WriteResults path
  | WriteStats path

text \<open>\<open>perform_dry_run\<close>: the gigabytes to process, or \<open>sys.exit(1)\<close>.\<close>

definition perform_dry_run :: "'a runner_world_scheme \<Rightarrow> pyerror + rat" where
  "perform_dry_run w =
     (case dry_run_job w of
        Inl msg \<Rightarrow> Inl (SystemExit 1)
      | Inr total_bytes_processed \<Rightarrow>
          Inr (gb_of_bytes (case total_bytes_processed of None \<Rightarrow> 0 | Some b \<Rightarrow> b)))"

text \<open>
  The \<open>while True\<close> loop of \<open>ask_user_confirmation\<close> over the lines typed: the answer, or
  the \<open>EOFError\<close> of \<open>input()\<close>, and the number of times \<open>input()\<close> was called.
\<close>

fun confirmation_loop :: "string list \<Rightarrow> (pyerror + bool) \<times> nat" where
  "confirmation_loop [] = (Inl EOFError, 1)"
| "confirmation_loop (line # rest) =
     (let response = lower (strip line)
      in if response \<in> {''y'', ''yes''} then (Inr True, 1)
         else if response \<in> {''n'', ''no'', []} then (Inr False, 1)
         else (case confirmation_loop rest of (answer, prompts) \<Rightarrow> (answer, prompts + 1)))"

definition ask_user_confirmation :: "rat \<Rightarrow> string list \<Rightarrow> (pyerror + bool) \<times> nat" where
  "ask_user_confirmation gb_processed lines =
     (if gb_processed > 100 then confirmation_loop lines else (Inr True, 0))"

text \<open>\<open>run_bigquery_query\<close>: when \<open>to_dataframe\<close> fails for lack of the read-session
  permission the rows are fetched one by one instead; any other failure is
  \<open>sys.exit(1)\<close>.\<close>

definition run_bigquery_query :: "'a runner_world_scheme \<Rightarrow> pyerror + unit" where
  "run_bigquery_query w =
     (case query_failure w of
        Some msg \<Rightarrow> Inl (SystemExit 1)
      | None \<Rightarrow>
          (case to_dataframe_failure w of
             None \<Rightarrow> Inr ()
           | Some error_msg \<Rightarrow>
               if contains ''bigquery.readsessions.create'' error_msg \<or> contains ''Permission'' error_msg
               then Inr ()
               else Inl (SystemExit 1)))"

text \<open>The statistics file lies beside the SQL file: \<open><stem>.query_stats.json\<close>. The stem
  is the file name without its last suffix.\<close>

definition stem :: "string \<Rightarrow> string" where
  "stem file_name =
     (let after_dot = takeWhile (\<lambda>c. c \<noteq> CHR ''.'') (rev file_name);
          without_suffix = rev (drop (length after_dot + 1) (rev file_name))
      in if length after_dot = length file_name \<or> without_suffix = [] \<or> after_dot = [] then file_name
         else without_suffix)"

definition query_stats_path :: "path \<Rightarrow> path" where
  "query_stats_path sql_file_path =
     butlast sql_file_path @ [stem (last sql_file_path) @ ''.query_stats.json'']"

text \<open>
  \<open>main\<close> of the query runner: the exit status of the process and what it did. An
  exception that nothing catches (the \<open>EOFError\<close> of \<open>input()\<close>) ends the interpreter with
  status 1; \<open>main\<close> returning ends it with status 0.
\<close>

definition run_and_persist :: "'a runner_world_scheme \<Rightarrow> runner_args \<Rightarrow> action list \<Rightarrow> int \<times> action list" where
  "run_and_persist w args so_far =
     (case run_bigquery_query w of
        Inl e \<Rightarrow> (1, so_far @ [ExecuteQuery])
      | Inr u \<Rightarrow>
          (case output_file args of
             Some output_path \<Rightarrow>
               if save_results_failure w then (1, so_far @ [ExecuteQuery, WriteResults output_path])
               else (0, so_far @ [ExecuteQuery, WriteResults output_path,
                                WriteStats (query_stats_path (sql_file args))])
           | None \<Rightarrow> (0, so_far @ [ExecuteQuery, WriteStats (query_stats_path (sql_file args))])))"

text \<open>The client is built from \<open>--project-id\<close> when it is given and not empty, from the
  configuration otherwise; any exception there is \<open>sys.exit(1)\<close>.\<close>

definition client_ready :: "'a runner_world_scheme \<Rightarrow> runner_args \<Rightarrow> bool" where
  "client_ready w args =
     ((if (case project_id_arg args of None \<Rightarrow> False | Some p \<Rightarrow> p \<noteq> []) then True
       else (case get_billing_project w of Inl e \<Rightarrow> False | Inr p \<Rightarrow> True))
      \<and> client_failure w = None)"

definition main_query :: "'a runner_world_scheme \<Rightarrow> filesystem \<Rightarrow> runner_args \<Rightarrow> int \<times> action list" where
  "main_query w fs args =
     (case read_text fs (sql_file args) of
        Inl e \<Rightarrow> (1, [])
      | Inr sql_query \<Rightarrow>
          if \<not> client_ready w args then (1, [])
          else if force args then run_and_persist w args []
          else
            (case perform_dry_run w of
               Inl e \<Rightarrow> (1, [DryRun])
             | Inr gb_processed \<Rightarrow>
                 (case ask_user_confirmation gb_processed (typed_lines w) of
                    (Inl e, prompts) \<Rightarrow> (1, DryRun # replicate prompts Prompt)
                  | (Inr False, prompts) \<Rightarrow> (0, DryRun # replicate prompts Prompt)
                  | (Inr True, prompts) \<Rightarrow>
                      run_and_persist w args (DryRun # replicate prompts Prompt))))"

section \<open>Predicates and example inputs\<close>


definition empty_disk :: filesystem where
  "empty_disk = Map.empty"

definition table_a_ddl :: path where
  "table_a_ddl = [''tables'', ''p'', ''d'', ''a'', ''ddl.sql'']"

definition table_a_preview :: path where
  "table_a_preview = [''tables'', ''p'', ''d'', ''a'', ''preview.sql'']"

text \<open>A tree with one mirrored table \<open>p.d.a\<close>: the definition file and the preview file
  with the given contents.\<close>

definition table_a_disk :: "string \<Rightarrow> string \<Rightarrow> filesystem" where
  "table_a_disk ddl_content preview_content =
     Map.empty([''tables''] \<mapsto> Dir,
       [''tables'', ''p''] \<mapsto> Dir,
       [''tables'', ''p'', ''d''] \<mapsto> Dir,
       [''tables'', ''p'', ''d'', ''a''] \<mapsto> Dir,
       table_a_ddl \<mapsto> File ddl_content,
       table_a_preview \<mapsto> File preview_content)"

text \<open>The table \<open>p.d.a\<close> was mirrored with the definition \<open>OLD\<close> and a good preview.\<close>

definition stale_schema_disk :: filesystem where
  "stale_schema_disk = table_a_disk ''OLD'' ''-- Preview of table: p.d.a''"




definition empty_table :: remote_table where
  "empty_table =
     \<lparr>get_table = Inr (Some 0),
      list_rows = Inr \<lparr>schema = [SchemaField ''id'' ''INTEGER''], rows = []\<rparr>\<rparr>"

text \<open>A world whose registry holds the one table \<open>p.d.a\<close> with the given definition text.\<close>

definition one_table_world :: "string \<Rightarrow> world" where
  "one_table_world definition_text =
     \<lparr>env_project_id = Some ''p'', client_failure = None,
      registry = Inr [(Some ''p'', Some ''d'', Some ''a'', Some definition_text)],
      sample_rows = (\<lambda>table_id. empty_table)\<rparr>"



definition table_a_row :: "string \<Rightarrow> catalog_row" where
  "table_a_row definition_text =
     \<lparr>table_catalog = Some ''p'', table_schema = Some ''d'', table_name = Some ''a'',
      wildcard_table_name = Some ''a'', ddl = Some definition_text\<rparr>"

definition start_state :: "filesystem \<Rightarrow> sync_state" where
  "start_state fs = \<lparr>disk = fs, created_tables = 0, preview_tasks = []\<rparr>"







text \<open>A dry run that estimates 150 GB, and a user who types \<open>maybe\<close> and then \<open>N\<close>.\<close>

definition costly_world :: runner_world where
  "costly_world =
     \<lparr>env_project_id = Some ''p'', client_failure = None,
      dry_run_job = Inr (Some (150 * 1024 ^ 3)), typed_lines = [''maybe'', '' N ''],
      query_failure = None, to_dataframe_failure = None, save_results_failure = False\<rparr>"

definition query_disk :: filesystem where
  "query_disk = Map.empty([''q.sql''] \<mapsto> File ''SELECT 1'')"

definition query_args :: runner_args where
  "query_args =
     \<lparr>sql_file = [''q.sql''], output_file = Some [''out.csv''], project_id_arg = None,
      force = False\<rparr>"

section \<open>Properties of the text functions and of the directory tree\<close>

lemma startswith_append: "startswith s p \<longleftrightarrow> (\<exists>r. s = p @ r)"
  unfolding startswith_def
  by (metis append_eq_conv_conj append_take_drop_id)

lemma dropWhile_keep: "xs \<noteq> [] \<Longrightarrow> \<not> P (hd xs) \<Longrightarrow> dropWhile P xs = xs"
  by (cases xs) auto


lemma lstrip_no_leading: "s \<noteq> [] \<Longrightarrow> \<not> isspace (hd s) \<Longrightarrow> lstrip s = s"
  unfolding lstrip_def by (rule dropWhile_keep)



text \<open>Text without whitespace at either end is its own \<open>strip\<close>.\<close>

lemma strip_clean:
  assumes "s = [] \<or> (\<not> isspace (hd s) \<and> \<not> isspace (last s))"
  shows "strip s = s"
proof (cases "s = []")
  case True
  then show ?thesis by (simp add: strip_def lstrip_def rstrip_def)
next
  case False
  with assms have h: "\<not> isspace (hd s)" and l: "\<not> isspace (last s)" by auto
  have "lstrip s = s" using False h by (rule lstrip_no_leading)
  moreover have "rstrip s = s"
  proof -
    have "rev s \<noteq> []" using False by simp
    moreover have "\<not> isspace (hd (rev s))" using l by (metis hd_rev)
    ultimately have "dropWhile isspace (rev s) = rev s" by (rule dropWhile_keep)
    then show ?thesis by (simp add: rstrip_def)
  qed
  ultimately show ?thesis by (simp add: strip_def)
qed




lemma write_text_same: "write_text fs p s = Inr fs' \<Longrightarrow> fs' p = Some (File s)"
  by (auto simp: write_text_def split: if_splits)

section \<open>The synchronizer\<close>










lemma row_fields_ddl:
  "row_fields row = Some (c, s, t, w, d) \<Longrightarrow> \<exists>text. ddl row = Some text \<and> d = strip text"
  by (auto simp: row_fields_def Option.bind_eq_Some_conv)

text \<open>Every file the loop over the rows creates or changes holds the stripped definition
  text of a row of the catalog.\<close>

lemma mkdir_parents_files:
  "mkdir_parents fs p = Inr fs' \<Longrightarrow> fs' q = Some (File x) \<Longrightarrow> fs q = Some (File x)"
proof (induction fs p arbitrary: fs' rule: mkdir_parents.induct)
  case (1 fs p)
  show ?case
  proof (cases "is_dir fs p")
    case True
    with "1.prems" show ?thesis by (simp add: mkdir_parents.simps [of fs p])
  next
    case False
    show ?thesis
    proof (cases "path_exists fs p")
      case True
      with False "1.prems" show ?thesis by (simp add: mkdir_parents.simps [of fs p])
    next
      case absent: False
      with False "1.prems" obtain fs1 where
        up: "mkdir_parents fs (butlast p) = Inr fs1" and fs': "fs' = fs1(p \<mapsto> Dir)"
        by (auto simp: mkdir_parents.simps [of fs p] split: sum.splits)
      from "1.prems"(2) fs' have "fs1 q = Some (File x)" by (auto split: if_splits)
      with "1.IH" [OF False absent up] show ?thesis .
    qed
  qed
qed

lemma process_row_files:
  assumes "disk (process_row base en st row) q = Some (File x)"
  shows "disk st q = Some (File x) \<or> (\<exists>text. ddl row = Some text \<and> x = strip text)"
proof (cases "row_fields row")
  case None
  then show ?thesis using assms by (simp add: process_row_def)
next
  case (Some v)
  obtain c s t w d where v: "v = (c, s, t, w, d)" by (cases v)
  from Some v obtain dt where dt: "ddl row = Some dt" "d = strip dt"
    by (auto dest: row_fields_ddl)
  show ?thesis
  proof (cases "mkdir_parents (disk st) (base @ [c, s, w])")
    case (Inl e)
    then show ?thesis using assms Some v by (simp add: process_row_def)
  next
    case (Inr fs1)
    show ?thesis
    proof (cases "write_text fs1 (base @ [c, s, w, ''ddl.sql'']) d")
      case (Inl e)
      then have "fs1 q = Some (File x)" using assms Inr Some v by (simp add: process_row_def)
      with Inr show ?thesis by (auto dest: mkdir_parents_files)
    next
      case w: (Inr fs2)
      then have fs2: "fs2 = fs1(base @ [c, s, w, ''ddl.sql''] \<mapsto> File d)"
        by (auto simp: write_text_def split: if_splits)
      have "fs2 q = Some (File x)" using assms Inr w Some v by (simp add: process_row_def Let_def)
      then have "x = d \<or> fs1 q = Some (File x)" using fs2 by (auto split: if_splits)
      with Inr dt show ?thesis by (auto dest: mkdir_parents_files)
    qed
  qed
qed

lemma loop_writes_stripped_definitions:
  assumes "disk (process_rows base en st df) q = Some (File x)"
  shows "disk st q = Some (File x) \<or> (\<exists>row \<in> set df. \<exists>text. ddl row = Some text \<and> x = strip text)"
  using assms
proof (induction df arbitrary: st)
  case Nil
  then show ?case by (simp add: process_rows_def)
next
  case (Cons r rs)
  from Cons.prems have "disk (process_rows base en (process_row base en st r) rs) q = Some (File x)"
    by (simp add: process_rows_def)
  from Cons.IH [OF this] show ?case
    by (auto dest: process_row_files)
qed

text \<open>
  The previews the tool writes begin with two dashes. For such a text the check of
  \<open>should_update_preview\<close>, made after \<open>strip\<close>, finds the sentinel only when the text
  itself begins with it.
\<close>

lemma rstrip_is_prefix: "\<exists>r. s = rstrip s @ r"
proof -
  have "rev s = takeWhile isspace (rev s) @ dropWhile isspace (rev s)" by simp
  then have "s = rev (dropWhile isspace (rev s)) @ rev (takeWhile isspace (rev s))"
    by (metis rev_append rev_rev_ident)
  then show ?thesis by (auto simp: rstrip_def)
qed

lemma strip_prefix_back:
  assumes "s \<noteq> []" "\<not> isspace (hd s)" "startswith (strip s) p"
  shows "startswith s p"
proof -
  have "strip s = rstrip s" using assms(1,2) by (simp add: strip_def lstrip_no_leading)
  with assms(3) obtain r' where "rstrip s = p @ r'" by (auto simp: startswith_append)
  moreover obtain r where "s = rstrip s @ r" using rstrip_is_prefix by blast
  ultimately have "s = p @ (r' @ r)" by simp
  then show ?thesis unfolding startswith_append by blast
qed

lemma get_table_preview_dashes:
  "get_table_preview remote table_id \<noteq> [] \<and> hd (get_table_preview remote table_id) = CHR ''-''"
  by (auto simp: get_table_preview_def error_text_def no_data_text_def preview_lines_def
      preview_header_def split: sum.splits)

lemma written_preview_fresh:
  assumes "\<not> startswith (get_table_preview remote table_id) error_sentinel"
  shows "\<not> startswith (strip (get_table_preview remote table_id)) error_sentinel"
proof -
  have "\<not> isspace (hd (get_table_preview remote table_id))"
    using get_table_preview_dashes [of remote table_id] by (simp add: isspace_def)
  then show ?thesis
    using assms get_table_preview_dashes [of remote table_id] by (blast intro: strip_prefix_back)
qed

section \<open>Claims about the mirror\<close>

text \<open>
  Claim C1. For every table whose persisted definition file differs from the table's
  current definition text at the start of a run, the staleness decision is taken against
  the persisted content as it was before the run overwrites it, and the run queues a
  refresh of the table's preview.

  The code writes the definition file first and asks \<open>should_update_preview\<close> afterwards.
  Here the table \<open>p.d.a\<close> was mirrored with the definition \<open>OLD\<close> and has a good preview;
  the registry now gives the definition \<open>NEW\<close>. The run returns, replaces the definition
  file, and queues no task.
\<close>

theorem changed_schema_not_enqueued:
  "stale_schema_disk table_a_ddl = Some (File ''OLD'')
   \<and> registry (one_table_world ''NEW'') = Inr [(Some ''p'', Some ''d'', Some ''a'', Some ''NEW'')]
   \<and> \<not> isl (create_table_structure (one_table_world ''NEW'') stale_schema_disk [''tables''] True)
   \<and> dispatched (projr (create_table_structure (one_table_world ''NEW'') stale_schema_disk [''tables''] True)) = []
   \<and> final_disk (projr (create_table_structure (one_table_world ''NEW'') stale_schema_disk [''tables''] True))
        table_a_ddl = Some (File ''NEW'')"
  by code_simp

text \<open>
  Claim C2, as the code has it. For every row the synchronizer counts as created, the
  definition file of the row's directory holds, right after the step, the row's definition
  text with the whitespace at both ends removed; it holds the definition text itself when
  that text neither begins nor ends with whitespace.
\<close>

theorem ddl_file_holds_stripped_definition:
  assumes rv: "row_fields row = Some (catalog, schema_name, tname, wname, ddl_text)"
    and df: "ddl row = Some definition_text"
    and cr: "created_tables (process_row base en st row) = created_tables st + 1"
  shows "disk (process_row base en st row) (base @ [catalog, schema_name, wname, ''ddl.sql''])
           = Some (File (strip definition_text))
       \<and> (definition_text = [] \<or> (\<not> isspace (hd definition_text) \<and> \<not> isspace (last definition_text))
            \<longrightarrow> disk (process_row base en st row) (base @ [catalog, schema_name, wname, ''ddl.sql''])
                  = Some (File definition_text))"
proof -
  from rv df have d: "ddl_text = strip definition_text"
    by (auto dest: row_fields_ddl)
  have "disk (process_row base en st row) (base @ [catalog, schema_name, wname, ''ddl.sql''])
           = Some (File ddl_text)"
  proof (cases "mkdir_parents (disk st) (base @ [catalog, schema_name, wname])")
    case (Inl e)
    with rv cr show ?thesis by (simp add: process_row_def)
  next
    case (Inr fs1)
    show ?thesis
    proof (cases "write_text fs1 (base @ [catalog, schema_name, wname, ''ddl.sql'']) ddl_text")
      case (Inl e)
      with Inr rv cr show ?thesis by (simp add: process_row_def)
    next
      case w: (Inr fs2)
      then have "fs2 (base @ [catalog, schema_name, wname, ''ddl.sql'']) = Some (File ddl_text)"
        by (rule write_text_same)
      with Inr w rv show ?thesis by (simp add: process_row_def Let_def)
    qed
  qed
  then show ?thesis using d by (auto simp: strip_clean)
qed

theorem ddl_file_holds_stripped_definition_witness:
  "row_fields (table_a_row ''D_A'') = Some (''p'', ''d'', ''a'', ''a'', ''D_A'')
   \<and> ddl (table_a_row ''D_A'') = Some ''D_A''
   \<and> created_tables (process_row [''tables''] True (start_state empty_disk) (table_a_row ''D_A''))
       = created_tables (start_state empty_disk) + 1
   \<and> (''D_A'' = [] \<or> (\<not> isspace (hd ''D_A'') \<and> \<not> isspace (last ''D_A'')))
   \<and> disk (process_row [''tables''] True (start_state empty_disk) (table_a_row ''D_A''))
        ([''tables''] @ [''p'', ''d'', ''a'', ''ddl.sql'']) = Some (File ''D_A'')"
proof -
  have h1: "row_fields (table_a_row ''D_A'') = Some (''p'', ''d'', ''a'', ''a'', ''D_A'')"
    by code_simp
  have h2: "ddl (table_a_row ''D_A'') = Some ''D_A''"
    by code_simp
  have h3: "created_tables (process_row [''tables''] True (start_state empty_disk) (table_a_row ''D_A''))
       = created_tables (start_state empty_disk) + 1"
    by code_simp
  have h4: "''D_A'' = [] \<or> (\<not> isspace (hd ''D_A'') \<and> \<not> isspace (last ''D_A''))"
    by code_simp
  from ddl_file_holds_stripped_definition [OF h1 h2 h3] h1 h2 h3 h4 show ?thesis by blast
qed

text \<open>The claim as the specification words it, character for character, fails on a
  definition text that ends with a newline: the file holds the text without it.\<close>

theorem ddl_file_not_verbatim:
  "registry (one_table_world (''D_A'' @ [CHR 0x0A]))
     = Inr [(Some ''p'', Some ''d'', Some ''a'', Some (''D_A'' @ [CHR 0x0A]))]
   \<and> created (projr (create_table_structure (one_table_world (''D_A'' @ [CHR 0x0A])) empty_disk [''tables''] True)) = 1
   \<and> final_disk (projr (create_table_structure (one_table_world (''D_A'' @ [CHR 0x0A])) empty_disk [''tables''] True))
        table_a_ddl = Some (File ''D_A'')
   \<and> ''D_A'' \<noteq> ''D_A'' @ [CHR 0x0A]"
  by code_simp











section \<open>Claims about the preview text\<close>





section \<open>Claims about the usage leaderboard\<close>










section \<open>Claims about the query runner\<close>

lemma confirmation_loop_prompts: "0 < snd (confirmation_loop ls)"
  by (induction ls) (auto simp: Let_def split: prod.splits)

text \<open>Executing and persisting never asks the user anything.\<close>

lemma run_and_persist_actions:
  "\<exists>acts. snd (run_and_persist w args so_far) = so_far @ acts \<and> Prompt \<notin> set acts"
  by (auto simp: run_and_persist_def split: sum.splits option.splits)

lemma prompted_iff:
  assumes h: "read_text fs (sql_file args) = Inr sql_query" "client_ready w args" "\<not> force args"
      "perform_dry_run w = Inr gb"
  shows "Prompt \<in> set (snd (main_query w fs args)) \<longleftrightarrow> 100 < gb"
proof -
  obtain answer prompts where ask: "ask_user_confirmation gb (typed_lines w) = (answer, prompts)"
    by (cases "ask_user_confirmation gb (typed_lines w)")
  have p: "0 < prompts \<longleftrightarrow> 100 < gb"
    using ask confirmation_loop_prompts [of "typed_lines w"]
    by (auto simp: ask_user_confirmation_def split: if_splits)
  obtain acts where acts:
    "snd (run_and_persist w args (DryRun # replicate prompts Prompt)) = (DryRun # replicate prompts Prompt) @ acts"
    "Prompt \<notin> set acts"
    using run_and_persist_actions by blast
  have "Prompt \<in> set (snd (main_query w fs args)) \<longleftrightarrow> 0 < prompts"
  proof (cases answer)
    case (Inl e)
    then show ?thesis using h ask by (auto simp: main_query_def)
  next
    case (Inr b)
    then show ?thesis using h ask acts by (cases b) (auto simp: main_query_def)
  qed
  with p show ?thesis by simp
qed

text \<open>
  Claim C9. Without \<open>--force\<close>, the user is asked for confirmation exactly when the dry
  run estimates more than 100 GB, that is more than \<open>100 * 1024 ^ 3\<close> bytes, in
  \<open>ask_user_confirmation\<close> and in a whole run of \<open>main\<close>. When the
  user declines, the process ends with exit status 0: the query is not executed, and
  neither the result file nor the statistics file is written.
\<close>

theorem declined_gate_aborts_cleanly:
  "(0 < snd (ask_user_confirmation gb_processed lines) \<longleftrightarrow> 100 < gb_processed)
   \<and> (100 < gb_of_bytes bytes_processed \<longleftrightarrow> 100 * 1024 ^ 3 < bytes_processed)
   \<and> (read_text fs (sql_file args) = Inr sql_query \<and> client_ready w args \<and> \<not> force args \<and>
      perform_dry_run w = Inr gb
      \<longrightarrow> (Prompt \<in> set (snd (main_query w fs args)) \<longleftrightarrow> 100 < gb))
   \<and> (read_text fs (sql_file args) = Inr sql_query \<and> client_ready w args \<and> \<not> force args \<and>
      perform_dry_run w = Inr gb \<and> fst (ask_user_confirmation gb (typed_lines w)) = Inr False
      \<longrightarrow> 100 < gb
          \<and> fst (main_query w fs args) = 0
          \<and> ExecuteQuery \<notin> set (snd (main_query w fs args))
          \<and> (\<forall>p. WriteResults p \<notin> set (snd (main_query w fs args)))
          \<and> (\<forall>p. WriteStats p \<notin> set (snd (main_query w fs args))))"
proof -
  have a: "0 < snd (ask_user_confirmation gb_processed lines) \<longleftrightarrow> 100 < gb_processed"
    using confirmation_loop_prompts by (simp add: ask_user_confirmation_def)
  have b: "100 < gb_of_bytes bytes_processed \<longleftrightarrow> 100 * 1024 ^ 3 < bytes_processed"
  proof -
    have "100 < gb_of_bytes bytes_processed \<longleftrightarrow> (100::rat) * 1073741824 < of_int bytes_processed"
      by (simp add: gb_of_bytes_def pos_less_divide_eq)
    also have "\<dots> \<longleftrightarrow> (of_int (100 * 1073741824) :: rat) < of_int bytes_processed" by simp
    also have "\<dots> \<longleftrightarrow> 100 * 1073741824 < bytes_processed" by (simp only: of_int_less_iff)
    finally show ?thesis by simp
  qed
  have c: "read_text fs (sql_file args) = Inr sql_query \<and> client_ready w args \<and> \<not> force args \<and>
      perform_dry_run w = Inr gb \<and> fst (ask_user_confirmation gb (typed_lines w)) = Inr False
      \<longrightarrow> 100 < gb
          \<and> fst (main_query w fs args) = 0
          \<and> ExecuteQuery \<notin> set (snd (main_query w fs args))
          \<and> (\<forall>p. WriteResults p \<notin> set (snd (main_query w fs args)))
          \<and> (\<forall>p. WriteStats p \<notin> set (snd (main_query w fs args)))"
  proof (intro impI, elim conjE)
    assume h: "read_text fs (sql_file args) = Inr sql_query" "client_ready w args" "\<not> force args"
      "perform_dry_run w = Inr gb" "fst (ask_user_confirmation gb (typed_lines w)) = Inr False"
    obtain prompts where ask: "ask_user_confirmation gb (typed_lines w) = (Inr False, prompts)"
      using h(5) by (cases "ask_user_confirmation gb (typed_lines w)") auto
    have m: "main_query w fs args = (0, DryRun # replicate prompts Prompt)"
      using h ask by (simp add: main_query_def)
    have "100 < gb" using ask by (auto simp: ask_user_confirmation_def split: if_splits)
    then show "100 < gb
          \<and> fst (main_query w fs args) = 0
          \<and> ExecuteQuery \<notin> set (snd (main_query w fs args))
          \<and> (\<forall>p. WriteResults p \<notin> set (snd (main_query w fs args)))
          \<and> (\<forall>p. WriteStats p \<notin> set (snd (main_query w fs args)))"
      by (auto simp: m)
  qed
  have p: "read_text fs (sql_file args) = Inr sql_query \<and> client_ready w args \<and> \<not> force args \<and>
      perform_dry_run w = Inr gb
      \<longrightarrow> (Prompt \<in> set (snd (main_query w fs args)) \<longleftrightarrow> 100 < gb)"
    using prompted_iff by blast
  from a b p c show ?thesis by blast
qed

theorem declined_gate_aborts_cleanly_witness:
  "read_text query_disk (sql_file query_args) = Inr ''SELECT 1''
   \<and> client_ready costly_world query_args \<and> \<not> force query_args
   \<and> perform_dry_run costly_world = Inr 150
   \<and> fst (ask_user_confirmation 150 (typed_lines costly_world)) = Inr False
   \<and> 0 < snd (ask_user_confirmation 150 (typed_lines costly_world))
   \<and> Prompt \<in> set (snd (main_query costly_world query_disk query_args))
   \<and> fst (main_query costly_world query_disk query_args) = 0
   \<and> ExecuteQuery \<notin> set (snd (main_query costly_world query_disk query_args))
   \<and> WriteResults [''out.csv''] \<notin> set (snd (main_query costly_world query_disk query_args))
   \<and> WriteStats (query_stats_path [''q.sql'']) \<notin> set (snd (main_query costly_world query_disk query_args))"
proof -
  have h: "read_text query_disk (sql_file query_args) = Inr ''SELECT 1''
     \<and> client_ready costly_world query_args \<and> \<not> force query_args
     \<and> perform_dry_run costly_world = Inr 150
     \<and> fst (ask_user_confirmation 150 (typed_lines costly_world)) = Inr False"
    by code_simp
  with declined_gate_aborts_cleanly
    [of 150 "typed_lines costly_world" 0 query_disk query_args "''SELECT 1''" costly_world 150]
  show ?thesis by simp
qed

end
